theory Spec2Isabelle
  imports Complex_Main
begin

section \<open>KS LED controller: command encoder, device registry, write engine\<close>

text \<open>
  A shallow embedding of \<^verbatim>\<open>led_menu.py\<close> and \<^verbatim>\<open>led_control.py\<close>.
  Python integers are \<open>int\<close>, strings are \<open>string\<close>, \<^verbatim>\<open>bytes\<close> values are lists
  of integers, raised exceptions are the \<open>Inl\<close> side of a sum, and the BLE client is a
  record of the answers the adapter gives, with the calls made to it recorded as a trace.
\<close>

subsection \<open>Python string formatting and \<^verbatim>\<open>bytes.fromhex\<close>\<close>

text \<open>
  The exceptions of the program: Python's own \<^verbatim>\<open>ValueError\<close> and \<^verbatim>\<open>KeyError\<close>,
  the \<^verbatim>\<open>RuntimeError\<close> the write engines raise with a message, and whatever exception the
  BLE adapter raises, kept as the text \<^verbatim>\<open>str(e)\<close> gives.
\<close>

datatype error = ValueError | KeyError | RuntimeError string | AdapterError string

text \<open>
  \<^verbatim>\<open>str(e)\<close>, as \<^verbatim>\<open>send_command\<close> prints it. Only the two exceptions with a text
  reach it there; the other two are given their names.
\<close>

fun str_of :: "error \<Rightarrow> string" where
  "str_of (RuntimeError m) = m"
| "str_of (AdapterError m) = m"
| "str_of ValueError = ''ValueError''"
| "str_of KeyError = ''KeyError''"

type_synonym bytes = "int list"

text \<open>The sixteen upper-case digits of the \<^verbatim>\<open>X\<close> presentation type.\<close>

definition hex_digit :: "nat \<Rightarrow> char" where
  "hex_digit d = ''0123456789ABCDEF'' ! (d mod 16)"

fun to_hex :: "nat \<Rightarrow> string" where
  "to_hex n = (if n < 16 then [hex_digit n] else to_hex (n div 16) @ [hex_digit (n mod 16)])"

declare to_hex.simps [simp del]

text \<open>
  \<^verbatim>\<open>f"{i:02X}"\<close>: upper-case hexadecimal, zero-padded to a minimum width of two
  characters, the sign counted in the width. Nothing is cut off when the number needs more.
\<close>

definition format_02X :: "int \<Rightarrow> string" where
  "format_02X i =
     (if i < 0 then CHR ''-'' # to_hex (nat (- i))
      else (let s = to_hex (nat i) in if length s < 2 then CHR ''0'' # s else s))"

text \<open>The value of one hexadecimal digit, in either case; \<open>None\<close> for any other character.\<close>

definition hex_val :: "char \<Rightarrow> int option" where
  "hex_val c =
     (let n = (of_char c :: nat) in
      if 48 \<le> n \<and> n \<le> 57 then Some (int n - 48)
      else if 65 \<le> n \<and> n \<le> 70 then Some (int n - 55)
      else if 97 \<le> n \<and> n \<le> 102 then Some (int n - 87)
      else None)"

text \<open>ASCII white space: space, tab, line feed, vertical tab, form feed, carriage return.\<close>

definition is_space :: "char \<Rightarrow> bool" where
  "is_space c = (let n = (of_char c :: nat) in n = 32 \<or> (9 \<le> n \<and> n \<le> 13))"

text \<open>
  \<^verbatim>\<open>bytes.fromhex\<close>: white space before a pair of digits is skipped, every pair of
  hexadecimal digits gives one byte, and anything else (a character that is no digit,
  a digit without its partner) raises \<^verbatim>\<open>ValueError\<close>.
\<close>

fun fromhex :: "string \<Rightarrow> error + bytes" where
  "fromhex [] = Inr []"
| "fromhex [c] = (if is_space c then Inr [] else Inl ValueError)"
| "fromhex (c # d # ds) =
     (if is_space c then fromhex (d # ds)
      else (case (hex_val c, hex_val d) of
              (Some h, Some l) \<Rightarrow>
                (case fromhex ds of Inl e \<Rightarrow> Inl e | Inr bs \<Rightarrow> Inr ((16 * h + l) # bs))
            | _ \<Rightarrow> Inl ValueError))"

subsection \<open>Command encoder (\<^verbatim>\<open>led_menu.py\<close>)\<close>

definition build_on_off_cmd :: "bool \<Rightarrow> error + bytes" where
  "build_on_off_cmd is_on = fromhex (if is_on then ''5BF001B5'' else ''5B0F01B5'')"

definition build_color_cmd :: "int \<Rightarrow> int \<Rightarrow> int \<Rightarrow> string \<Rightarrow> int \<Rightarrow> error + bytes" where
  "build_color_cmd r g b device_type brightness =
     (if device_type = ''floor'' then
        (let rgb_hex = format_02X r @ format_02X g @ format_02X b;
             brightness_hex = format_02X brightness;
             cmd_str = ''5A0001'' @ rgb_hex @ ''00'' @ brightness_hex @ ''00A5''
         in fromhex cmd_str)
      else
        (let rgb_hex = format_02X r @ format_02X g @ format_02X b;
             cmd_str = ''7E070503'' @ rgb_hex @ ''00EF''
         in fromhex cmd_str))"

subsection \<open>Device registry (\<^verbatim>\<open>led_menu.py\<close>)\<close>

record mapping =
  service :: string
  write_short :: string  \<comment> \<open>the key \<^verbatim>\<open>"write"\<close>\<close>
  dtype :: string

text \<open>
  \<^verbatim>\<open>DEVICE_MAPPINGS\<close>, a dictionary; its keys are iterated in insertion order, so it
  is an association list in the order of the source.
\<close>

definition DEVICE_MAPPINGS :: "(string \<times> mapping) list" where
  "DEVICE_MAPPINGS =
     [(''KS03-'', \<lparr>service = ''FFF0'', write_short = ''FFF3'', dtype = ''ceiling''\<rparr>),
      (''KS03~'', \<lparr>service = ''AFD0'', write_short = ''AFD1'', dtype = ''floor''\<rparr>),
      (''KS04-'', \<lparr>service = ''FFF0'', write_short = ''FFF3'', dtype = ''ceiling''\<rparr>),
      (''KS01-'', \<lparr>service = ''AE00'', write_short = ''AE01'', dtype = ''ceiling''\<rparr>),
      (''KS02-'', \<lparr>service = ''AE00'', write_short = ''AE01'', dtype = ''ceiling''\<rparr>)]"

text \<open>\<^verbatim>\<open>str.startswith\<close>.\<close>

fun startswith :: "string \<Rightarrow> string \<Rightarrow> bool" where
  "startswith s [] = True"
| "startswith [] (p # ps) = False"
| "startswith (c # cs) (p # ps) = (c = p \<and> startswith cs ps)"

text \<open>
  The inner loop of \<^verbatim>\<open>scan_devices\<close>: the keys in order, the first one the name
  starts with, then \<^verbatim>\<open>break\<close>.
\<close>

fun first_prefix :: "string list \<Rightarrow> string \<Rightarrow> string option" where
  "first_prefix [] name = None"
| "first_prefix (prefix # rest) name =
     (if startswith name prefix then Some prefix else first_prefix rest name)"

subsection \<open>The BLE adapter\<close>

text \<open>
  The calls the program makes to the adapter, in the order it makes them. Durations are
  seconds; the program only passes them on.
\<close>

datatype event =
    Discover real
  | Connect string
  | Sleep real
  | Write string bytes bool
  | Disconnect

text \<open>
  One \<^verbatim>\<open>BleakClient\<close>, as the answers it gives: \<open>Some m\<close> is an exception with text
  \<open>m\<close>, \<open>None\<close> a normal return. A write's answer may depend on how many writes came
  before it on this client, on the characteristic, the payload and the response mode.
\<close>

record client =
  connect_raises :: "string option"
  connected_after_connect :: bool
  write_raises :: "nat \<Rightarrow> string \<Rightarrow> bytes \<Rightarrow> bool \<Rightarrow> string option"
  connected_at_cleanup :: bool
  disconnect_raises :: "string option"

text \<open>One advertisement: the address and the name, which may be absent.\<close>

type_synonym advert = "string \<times> string option"

definition UUID_TEMPLATE :: "string \<Rightarrow> string" where
  "UUID_TEMPLATE short = ''0000'' @ short @ ''-0000-1000-8000-00805f9b34fb''"

text \<open>\<^verbatim>\<open>str.upper\<close> on the ASCII letters; the short codes are ASCII.\<close>

definition upper_char :: "char \<Rightarrow> char" where
  "upper_char c =
     (let n = (of_char c :: nat) in if 97 \<le> n \<and> n \<le> 122 then char_of (n - 32) else c)"

definition upper :: "string \<Rightarrow> string" where
  "upper s = map upper_char s"

subsection \<open>Discovery\<close>

text \<open>
  \<^verbatim>\<open>scan_devices\<close> of \<^verbatim>\<open>led_menu.py\<close>. The scanner is the function \<open>discover\<close>;
  the result is the calls made and the list of (address, name, prefix).
\<close>

fun match_devices :: "advert list \<Rightarrow> (string \<times> string \<times> string) list" where
  "match_devices [] = []"
| "match_devices ((address, dev_name) # found) =
     (let name = (case dev_name of None \<Rightarrow> [] | Some n \<Rightarrow> n) in
      case first_prefix (map fst DEVICE_MAPPINGS) name of
        None \<Rightarrow> match_devices found
      | Some prefix \<Rightarrow> (address, name, prefix) # match_devices found)"

definition scan_devices ::
  "(real \<Rightarrow> error + advert list) \<Rightarrow> real \<Rightarrow> event list \<times> (error + (string \<times> string \<times> string) list)"
where
  "scan_devices discover timeout =
     ([Discover timeout],
      (case discover timeout of Inl e \<Rightarrow> Inl e | Inr found \<Rightarrow> Inr (match_devices found)))"

text \<open>\<^verbatim>\<open>find_device_by_prefix\<close> of \<^verbatim>\<open>led_control.py\<close>: the first address whose name starts with the prefix.\<close>

fun first_address :: "string \<Rightarrow> advert list \<Rightarrow> string option" where
  "first_address prefix [] = None"
| "first_address prefix ((address, dev_name) # devices) =
     (case dev_name of
        None \<Rightarrow> first_address prefix devices
      | Some n \<Rightarrow> if n \<noteq> [] \<and> startswith n prefix then Some address
                  else first_address prefix devices)"

definition find_device_by_prefix ::
  "(real \<Rightarrow> error + advert list) \<Rightarrow> string \<Rightarrow> real \<Rightarrow> event list \<times> (error + string option)"
where
  "find_device_by_prefix discover prefix timeout =
     ([Discover timeout],
      (case discover timeout of Inl e \<Rightarrow> Inl e | Inr devices \<Rightarrow> Inr (first_address prefix devices)))"

subsection \<open>Write engine of \<^verbatim>\<open>led_control.py\<close>\<close>

text \<open>The alternate characteristic of the last resort, chosen on the upper-cased short code.\<close>

definition alt_char_short :: "string \<Rightarrow> string option" where
  "alt_char_short char_short =
     (if upper char_short = ''AFD3'' then Some ''FFF3''
      else if upper char_short = ''FFF3'' then Some ''AFD3''
      else None)"

text \<open>
  The nested \<^verbatim>\<open>try\<close>/\<^verbatim>\<open>except\<close> of \<^verbatim>\<open>write_command\<close> (with \<^verbatim>\<open>verbose\<close>
  off): the writes made, and either the exception raised or the values of
  \<^verbatim>\<open>write_success\<close> and \<^verbatim>\<open>last_error\<close> when control leaves it normally. The
  exception of the third write is caught without a name.
\<close>

definition write_cascade ::
  "client \<Rightarrow> string \<Rightarrow> bytes \<Rightarrow> event list \<times> (error + bool \<times> string option)"
where
  "write_cascade cl char_short payload =
     (let char_uuid = UUID_TEMPLATE char_short in
      case write_raises cl 0 char_uuid payload False of
        None \<Rightarrow> ([Write char_uuid payload False], Inr (True, None))
      | Some e1 \<Rightarrow>
         (case write_raises cl 1 char_uuid payload True of
            None \<Rightarrow>
              ([Write char_uuid payload False, Write char_uuid payload True], Inr (True, Some e1))
          | Some e2 \<Rightarrow>
             (case alt_char_short char_short of
                None \<Rightarrow>
                  ([Write char_uuid payload False, Write char_uuid payload True],
                   Inl (RuntimeError (''Write failed: '' @ e1 @ '', '' @ e2)))
              | Some alt \<Rightarrow>
                 (let alt_char_uuid = UUID_TEMPLATE alt in
                  case write_raises cl 2 alt_char_uuid payload False of
                    None \<Rightarrow>
                      ([Write char_uuid payload False, Write char_uuid payload True,
                        Write alt_char_uuid payload False], Inr (True, Some e2))
                  | Some _ \<Rightarrow>
                     (case write_raises cl 3 alt_char_uuid payload True of
                        None \<Rightarrow>
                          ([Write char_uuid payload False, Write char_uuid payload True,
                            Write alt_char_uuid payload False, Write alt_char_uuid payload True],
                           Inr (True, Some e2))
                      | Some e3 \<Rightarrow>
                          ([Write char_uuid payload False, Write char_uuid payload True,
                            Write alt_char_uuid payload False, Write alt_char_uuid payload True],
                           Inl (RuntimeError
                                  (''All write attempts failed: '' @ e1 @ '', '' @ e2 @ '', '' @ e3))))))))"

text \<open>The \<^verbatim>\<open>try\<close> body of \<^verbatim>\<open>write_command\<close>.\<close>

definition write_body ::
  "client \<Rightarrow> string \<Rightarrow> string \<Rightarrow> bytes \<Rightarrow> event list \<times> (error + unit)"
where
  "write_body cl address char_short payload =
     (case connect_raises cl of
        Some e \<Rightarrow> ([Connect address], Inl (AdapterError e))
      | None \<Rightarrow>
         if \<not> connected_after_connect cl
         then ([Connect address], Inl (RuntimeError ''Failed to connect to device''))
         else
           (case write_cascade cl char_short payload of
              (ws, Inl e) \<Rightarrow> ([Connect address, Sleep 0.3] @ ws, Inl e)
            | (ws, Inr (write_success, last_error)) \<Rightarrow>
                if write_success then ([Connect address, Sleep 0.3] @ ws @ [Sleep 0.2], Inr ())
                else ([Connect address, Sleep 0.3] @ ws,
                      Inl (RuntimeError (''Write failed: '' @
                             (case last_error of None \<Rightarrow> ''None'' | Some e \<Rightarrow> e))))))"

text \<open>
  The \<^verbatim>\<open>finally\<close> clause of \<^verbatim>\<open>write_command\<close>: disconnect only when the client says it
  is connected, and ignore what the disconnect raises.
\<close>

definition cleanup :: "client \<Rightarrow> event list" where
  "cleanup cl = (if connected_at_cleanup cl then [Disconnect] else [])"

definition write_command ::
  "client \<Rightarrow> string \<Rightarrow> string \<Rightarrow> string \<Rightarrow> bytes \<Rightarrow> event list \<times> (error + unit)"
where
  "write_command cl address service_short char_short payload =
     (case write_body cl address char_short payload of
        (evs, res) \<Rightarrow> (evs @ cleanup cl, res))"

subsection \<open>Write engine and menu actions of \<^verbatim>\<open>led_menu.py\<close>\<close>

definition menu_write_body ::
  "client \<Rightarrow> string \<Rightarrow> string \<Rightarrow> bytes \<Rightarrow> event list \<times> (error + unit)"
where
  "menu_write_body cl address char_short payload =
     (let char_uuid = UUID_TEMPLATE char_short in
      case connect_raises cl of
        Some e \<Rightarrow> ([Connect address], Inl (AdapterError e))
      | None \<Rightarrow>
         if \<not> connected_after_connect cl
         then ([Connect address], Inl (RuntimeError ''Failed to connect''))
         else
           (case write_raises cl 0 char_uuid payload False of
              None \<Rightarrow>
                ([Connect address, Sleep 0.3, Write char_uuid payload False, Sleep 0.2], Inr ())
            | Some _ \<Rightarrow>
               (case write_raises cl 1 char_uuid payload True of
                  None \<Rightarrow>
                    ([Connect address, Sleep 0.3, Write char_uuid payload False,
                      Write char_uuid payload True, Sleep 0.2], Inr ())
                | Some e2 \<Rightarrow>
                    ([Connect address, Sleep 0.3, Write char_uuid payload False,
                      Write char_uuid payload True], Inl (AdapterError e2)))))"

text \<open>\<^verbatim>\<open>write_command\<close> of \<^verbatim>\<open>led_menu.py\<close>, with its own \<^verbatim>\<open>finally\<close> clause.\<close>

definition menu_write_command ::
  "client \<Rightarrow> string \<Rightarrow> string \<Rightarrow> string \<Rightarrow> bytes \<Rightarrow> event list \<times> (error + unit)"
where
  "menu_write_command cl address service_short char_short payload =
     (case menu_write_body cl address char_short payload of
        (evs, res) \<Rightarrow> (evs @ (if connected_at_cleanup cl then [Disconnect] else []), res))"

text \<open>What \<^verbatim>\<open>send_command\<close> prints at its end.\<close>

datatype feedback = SentOk | Failed string

text \<open>\<^verbatim>\<open>DEVICE_MAPPINGS[prefix]\<close>.\<close>

definition lookup_mapping :: "string \<Rightarrow> error + mapping" where
  "lookup_mapping prefix =
     (case map_of DEVICE_MAPPINGS prefix of None \<Rightarrow> Inl KeyError | Some m \<Rightarrow> Inr m)"

text \<open>
  The colour path of \<^verbatim>\<open>send_command\<close>: one connection, the ON command, then the
  payload, both without response, then the disconnect; no \<^verbatim>\<open>finally\<close>.
\<close>

definition color_sequence ::
  "client \<Rightarrow> string \<Rightarrow> string \<Rightarrow> bytes \<Rightarrow> event list \<times> (error + unit)"
where
  "color_sequence cl addr char_uuid payload =
     (case connect_raises cl of
        Some e \<Rightarrow> ([Connect addr], Inl (AdapterError e))
      | None \<Rightarrow>
         (case build_on_off_cmd True of
            Inl e \<Rightarrow> ([Connect addr, Sleep 0.3], Inl e)
          | Inr on_cmd \<Rightarrow>
             (case write_raises cl 0 char_uuid on_cmd False of
                Some e \<Rightarrow> ([Connect addr, Sleep 0.3, Write char_uuid on_cmd False], Inl (AdapterError e))
              | None \<Rightarrow>
                 (case write_raises cl 1 char_uuid payload False of
                    Some e \<Rightarrow>
                      ([Connect addr, Sleep 0.3, Write char_uuid on_cmd False, Sleep 0.5,
                        Write char_uuid payload False], Inl (AdapterError e))
                  | None \<Rightarrow>
                      ([Connect addr, Sleep 0.3, Write char_uuid on_cmd False, Sleep 0.5,
                        Write char_uuid payload False, Sleep 0.2, Disconnect],
                       (case disconnect_raises cl of
                          Some e \<Rightarrow> Inl (AdapterError e) | None \<Rightarrow> Inr ()))))))"

definition send_command ::
  "client \<Rightarrow> (string \<times> string \<times> string) \<Rightarrow> bytes \<Rightarrow> bool \<Rightarrow> event list \<times> (error + feedback)"
where
  "send_command cl device payload is_color =
     (case device of (addr, name, prefix) \<Rightarrow>
        (case lookup_mapping prefix of
           Inl e \<Rightarrow> ([], Inl e)
         | Inr m \<Rightarrow>
            (case (if is_color
                   then color_sequence cl addr (UUID_TEMPLATE (write_short m)) payload
                   else menu_write_command cl addr (service m) (write_short m) payload) of
               (evs, Inl e) \<Rightarrow> (evs @ [Sleep 1], Inr (Failed (str_of e)))
             | (evs, Inr u) \<Rightarrow> (evs @ [Sleep 1], Inr SentOk))))"

text \<open>
  \<^verbatim>\<open>brightness_menu\<close>. \<open>choice\<close> is the option typed; \<open>entered\<close> is what
  \<^verbatim>\<open>int(input(...).strip())\<close> gives for option 5, \<open>None\<close> when it raises
  \<^verbatim>\<open>ValueError\<close>. The outcome is what the menu did.
\<close>

datatype brightness_outcome =
    Back
  | OutOfRange
  | InvalidNumber
  | NoBrightness
  | NotSupported
  | Sent feedback

definition chosen_brightness :: "string \<Rightarrow> int option \<Rightarrow> brightness_outcome + int option" where
  "chosen_brightness choice entered =
     (if choice = ''1'' then Inr (Some 64)
      else if choice = ''2'' then Inr (Some 128)
      else if choice = ''3'' then Inr (Some 192)
      else if choice = ''4'' then Inr (Some 255)
      else if choice = ''5'' then
        (case entered of
           None \<Rightarrow> Inl InvalidNumber
         | Some brightness \<Rightarrow>
             if \<not> (0 \<le> brightness \<and> brightness \<le> 255) then Inl OutOfRange
             else Inr (Some brightness))
      else Inr None)"

definition brightness_menu ::
  "client \<Rightarrow> (string \<times> string \<times> string) \<Rightarrow> string \<Rightarrow> int option
   \<Rightarrow> event list \<times> (error + brightness_outcome)"
where
  "brightness_menu cl device choice entered =
     (case device of (addr, name, prefix) \<Rightarrow>
        (case lookup_mapping prefix of
           Inl e \<Rightarrow> ([], Inl e)
         | Inr m \<Rightarrow>
            (let device_type = dtype m in
             if choice = ''0'' then ([], Inr Back)
             else
               (case chosen_brightness choice entered of
                  Inl stop \<Rightarrow> ([Sleep 2], Inr stop)
                | Inr None \<Rightarrow> ([], Inr NoBrightness)
                | Inr (Some brightness) \<Rightarrow>
                    if device_type = ''floor'' then
                      (let brightness_hex = format_02X brightness;
                           cmd_str = ''5A000200000000'' @ brightness_hex @ ''00A5''
                       in case fromhex cmd_str of
                            Inl e \<Rightarrow> ([], Inl e)
                          | Inr cmd \<Rightarrow>
                             (case send_command cl device cmd True of
                                (evs, Inl e) \<Rightarrow> (evs, Inl e)
                              | (evs, Inr fb) \<Rightarrow> (evs, Inr (Sent fb))))
                    else ([Sleep 2], Inr NotSupported)))))"

subsection \<open>The fallback order as the specification words it\<close>

text \<open>
  The plan of section 4.4: primary without acknowledgement, primary with acknowledgement,
  and, when the short code is one of the pair FFF3/AFD3, the other one of the pair
  without and then with acknowledgement.
\<close>

definition spec_plan :: "string \<Rightarrow> (string \<times> bool) list" where
  "spec_plan char_short =
     [(UUID_TEMPLATE char_short, False), (UUID_TEMPLATE char_short, True)] @
     (if upper char_short = ''FFF3'' then [(UUID_TEMPLATE ''AFD3'', False), (UUID_TEMPLATE ''AFD3'', True)]
      else if upper char_short = ''AFD3'' then [(UUID_TEMPLATE ''FFF3'', False), (UUID_TEMPLATE ''FFF3'', True)]
      else [])"

text \<open>Run a plan in order from attempt number \<open>k\<close>, stopping after the first write that succeeds.\<close>

fun spec_attempts :: "client \<Rightarrow> bytes \<Rightarrow> nat \<Rightarrow> (string \<times> bool) list \<Rightarrow> event list" where
  "spec_attempts cl payload k [] = []"
| "spec_attempts cl payload k ((uuid, ack) # plan) =
     Write uuid payload ack #
       (case write_raises cl k uuid payload ack of
          None \<Rightarrow> []
        | Some e \<Rightarrow> spec_attempts cl payload (k + 1) plan)"

text \<open>The writes of a trace.\<close>

fun is_write :: "event \<Rightarrow> bool" where
  "is_write (Write u p a) = True"
| "is_write e = False"

definition writes_of :: "event list \<Rightarrow> event list" where
  "writes_of evs = filter is_write evs"

section \<open>Properties\<close>

subsection \<open>Hexadecimal formatting and parsing\<close>


lemma upt_16: "[0..<16] = [0, 1, 2, 3, 4, 5, 6, 7, 8, 9, 10, 11, 12, 13, 14, 15::nat]"
  by (simp add: upt_rec)

lemma digit_cases: "d < 16 \<Longrightarrow> d \<in> {0, 1, 2, 3, 4, 5, 6, 7, 8, 9, 10, 11, 12, 13, 14, 15::nat}"
proof -
  assume "d < 16"
  then have "d \<in> set [0..<16]" by simp
  then show ?thesis by (simp only: upt_16 list.set)
qed

lemma hex_val_digit: "d < 16 \<Longrightarrow> hex_val (hex_digit d) = Some (int d)"
  by (drule digit_cases) (auto simp: hex_digit_def hex_val_def)

lemma not_space_digit: "\<not> is_space (hex_digit d)"
proof -
  have "d mod 16 < 16" by simp
  then have "d mod 16 \<in> {0, 1, 2, 3, 4, 5, 6, 7, 8, 9, 10, 11, 12, 13, 14, 15::nat}"
    by (rule digit_cases)
  then have "\<not> is_space (''0123456789ABCDEF'' ! (d mod 16))"
    by (auto simp: is_space_def)
  then show ?thesis by (simp add: hex_digit_def)
qed

lemma format_02X_byte:
  assumes "0 \<le> i" "i \<le> 255"
  shows "format_02X i = [hex_digit (nat i div 16), hex_digit (nat i mod 16)]"
proof (cases "nat i < 16")
  case True
  then show ?thesis using assms
    by (simp add: format_02X_def to_hex.simps [of "nat i"] hex_digit_def)
next
  case False
  have "nat i div 16 < 16" using assms by linarith
  then show ?thesis using assms False
    by (simp add: format_02X_def to_hex.simps [of "nat i"] to_hex.simps [of "nat i div 16"])
qed

lemma fromhex_only_ValueError: "fromhex s = Inl e \<Longrightarrow> e = ValueError"
  by (induction s arbitrary: e rule: fromhex.induct)
     (auto split: if_splits option.splits sum.splits)

lemma fromhex_bad_char:
  "c \<in> set s \<Longrightarrow> hex_val c = None \<Longrightarrow> \<not> is_space c \<Longrightarrow> fromhex s = Inl ValueError"
proof (induction s rule: fromhex.induct)
  case 1
  then show ?case by simp
next
  case (2 a)
  then show ?case by simp
next
  case (3 a d ds)
  show ?case
  proof (cases "is_space a")
    case True
    with 3 have "c \<in> set (d # ds)" by auto
    with 3 True show ?thesis by simp
  next
    case False
    show ?thesis
    proof (cases "hex_val a")
      case None
      with False show ?thesis by simp
    next
      case (Some h)
      show ?thesis
      proof (cases "hex_val d")
        case None
        with False Some show ?thesis by simp
      next
        case l: (Some l)
        with 3 Some have "c \<in> set ds" by auto
        with 3 False Some l have "fromhex ds = Inl ValueError" by simp
        with False Some l show ?thesis by simp
      qed
    qed
  qed
qed

lemma fromhex_length:
  "fromhex s = Inr bs \<Longrightarrow> \<forall>c \<in> set s. \<not> is_space c \<Longrightarrow> length s = 2 * length bs"
  by (induction s arbitrary: bs rule: fromhex.induct)
     (auto split: if_splits option.splits sum.splits)

lemma to_hex_chars: "c \<in> set (to_hex n) \<Longrightarrow> \<not> is_space c"
  by (induction n rule: to_hex.induct)
     (subst (asm) to_hex.simps, auto simp: not_space_digit split: if_splits)

lemma to_hex_length_pos: "1 \<le> length (to_hex n)"
  by (subst to_hex.simps) simp

lemma to_hex_length_big: "256 \<le> n \<Longrightarrow> 3 \<le> length (to_hex n)"
proof -
  assume big: "256 \<le> n"
  then have "16 \<le> n div 16" by linarith
  then have "to_hex n = to_hex (n div 16 div 16) @ [hex_digit (n div 16 mod 16), hex_digit (n mod 16)]"
    using big by (simp add: to_hex.simps [of n] to_hex.simps [of "n div 16"])
  then show ?thesis using to_hex_length_pos [of "n div 16 div 16"] by simp
qed

lemma minus_not_hex: "hex_val CHR ''-'' = None \<and> \<not> is_space CHR ''-''"
  by (simp add: hex_val_def is_space_def)

lemma format_02X_chars: "c \<in> set (format_02X i) \<Longrightarrow> \<not> is_space c"
  using minus_not_hex
  by (auto simp: format_02X_def Let_def is_space_def dest: to_hex_chars split: if_splits)

lemma format_02X_length: "2 \<le> length (format_02X i)"
  using to_hex_length_pos [of "nat (- i)"] to_hex_length_pos [of "nat i"]
  by (auto simp: format_02X_def Let_def)

lemma format_02X_negative: "i < 0 \<Longrightarrow> CHR ''-'' \<in> set (format_02X i)"
  by (simp add: format_02X_def)

lemma format_02X_length_big: "255 < i \<Longrightarrow> 3 \<le> length (format_02X i)"
proof -
  assume "255 < i"
  then have "256 \<le> nat i" by linarith
  then have "3 \<le> length (to_hex (nat i))" by (rule to_hex_length_big)
  then show ?thesis using \<open>255 < i\<close> by (simp add: format_02X_def Let_def)
qed


lemma byte_recompose: "0 \<le> i \<Longrightarrow> 16 * int (nat i div 16) + int (nat i mod 16) = i"
  by (simp add: zdiv_int zmod_int)

lemma fromhex_byte:
  assumes "0 \<le> i" "i \<le> 255"
  shows "fromhex (hex_digit (nat i div 16) # hex_digit (nat i mod 16) # rest) =
     (case fromhex rest of Inl e \<Rightarrow> Inl e | Inr bs \<Rightarrow> Inr (i # bs))"
proof -
  have hi: "nat i div 16 < 16" using assms by linarith
  have lo: "nat i mod 16 < 16" by simp
  have v: "16 * int (nat i div 16) + int (nat i mod 16) = i"
    using assms by (rule_tac byte_recompose)
  show ?thesis
    by (simp only: fromhex.simps not_space_digit if_False hex_val_digit [OF hi]
        hex_val_digit [OF lo] prod.case option.case v)
qed

lemma fromhex_literal_pairs:
  "fromhex (CHR ''7'' # CHR ''E'' # rest) = (case fromhex rest of Inl e \<Rightarrow> Inl e | Inr bs \<Rightarrow> Inr (126 # bs))"
  "fromhex (CHR ''0'' # CHR ''7'' # rest) = (case fromhex rest of Inl e \<Rightarrow> Inl e | Inr bs \<Rightarrow> Inr (7 # bs))"
  "fromhex (CHR ''0'' # CHR ''5'' # rest) = (case fromhex rest of Inl e \<Rightarrow> Inl e | Inr bs \<Rightarrow> Inr (5 # bs))"
  "fromhex (CHR ''0'' # CHR ''3'' # rest) = (case fromhex rest of Inl e \<Rightarrow> Inl e | Inr bs \<Rightarrow> Inr (3 # bs))"
  "fromhex (CHR ''0'' # CHR ''2'' # rest) = (case fromhex rest of Inl e \<Rightarrow> Inl e | Inr bs \<Rightarrow> Inr (2 # bs))"
  "fromhex (CHR ''0'' # CHR ''1'' # rest) = (case fromhex rest of Inl e \<Rightarrow> Inl e | Inr bs \<Rightarrow> Inr (1 # bs))"
  "fromhex (CHR ''0'' # CHR ''0'' # rest) = (case fromhex rest of Inl e \<Rightarrow> Inl e | Inr bs \<Rightarrow> Inr (0 # bs))"
  "fromhex (CHR ''E'' # CHR ''F'' # rest) = (case fromhex rest of Inl e \<Rightarrow> Inl e | Inr bs \<Rightarrow> Inr (239 # bs))"
  "fromhex (CHR ''5'' # CHR ''A'' # rest) = (case fromhex rest of Inl e \<Rightarrow> Inl e | Inr bs \<Rightarrow> Inr (90 # bs))"
  "fromhex (CHR ''A'' # CHR ''5'' # rest) = (case fromhex rest of Inl e \<Rightarrow> Inl e | Inr bs \<Rightarrow> Inr (165 # bs))"
  by (simp_all add: hex_val_def is_space_def split: sum.splits)

lemma ceiling_bytes:
  assumes "0 \<le> r" "r \<le> 255" "0 \<le> g" "g \<le> 255" "0 \<le> b" "b \<le> 255" "device_type \<noteq> ''floor''"
  shows "build_color_cmd r g b device_type brightness = Inr [126, 7, 5, 3, r, g, b, 0, 239]"
  using assms
  by (simp add: build_color_cmd_def format_02X_byte fromhex_literal_pairs fromhex_byte
      del: fromhex.simps(2) fromhex.simps(3))

lemma floor_bytes:
  assumes "0 \<le> r" "r \<le> 255" "0 \<le> g" "g \<le> 255" "0 \<le> b" "b \<le> 255"
    "0 \<le> brightness" "brightness \<le> 255"
  shows "build_color_cmd r g b ''floor'' brightness = Inr [90, 0, 1, r, g, b, 0, brightness, 0, 165]"
  using assms
  by (simp add: build_color_cmd_def format_02X_byte fromhex_literal_pairs fromhex_byte
      del: fromhex.simps(2) fromhex.simps(3))


lemma fromhex_odd:
  assumes "\<forall>c \<in> set s. \<not> is_space c" "odd (length s)"
  shows "fromhex s = Inl ValueError"
proof (cases "fromhex s")
  case (Inl e)
  then show ?thesis using fromhex_only_ValueError by simp
next
  case (Inr bs)
  then have "length s = 2 * length bs" using assms(1) by (rule fromhex_length)
  with assms(2) show ?thesis by simp
qed

lemma ceiling_cmd_no_space:
  "\<forall>c \<in> set (''7E070503'' @ format_02X r @ format_02X g @ format_02X b @ ''00EF''). \<not> is_space c"
  by (auto simp: is_space_def dest: format_02X_chars)

lemma floor_cmd_no_space:
  "\<forall>c \<in> set (''5A0001'' @ format_02X r @ format_02X g @ format_02X b @ ''00'' @
        format_02X v @ ''00A5''). \<not> is_space c"
  by (auto simp: is_space_def dest: format_02X_chars)

lemma build_color_cmd_ceiling:
  "device_type \<noteq> ''floor'' \<Longrightarrow> build_color_cmd r g b device_type v =
     fromhex (''7E070503'' @ format_02X r @ format_02X g @ format_02X b @ ''00EF'')"
  by (simp only: build_color_cmd_def Let_def if_False append_assoc)

lemma build_color_cmd_floor:
  "build_color_cmd r g b ''floor'' v =
     fromhex (''5A0001'' @ format_02X r @ format_02X g @ format_02X b @ ''00'' @
        format_02X v @ ''00A5'')"
  by (simp only: build_color_cmd_def Let_def refl if_True append_assoc)

lemma build_color_cmd_only_ValueError:
  "build_color_cmd r g b device_type v = Inl e \<Longrightarrow> e = ValueError"
proof (cases "device_type = ''floor''")
  case True
  assume "build_color_cmd r g b device_type v = Inl e"
  with True show ?thesis
    by (simp only: build_color_cmd_floor) (rule fromhex_only_ValueError)
next
  case False
  assume "build_color_cmd r g b device_type v = Inl e"
  then show ?thesis
    by (simp only: build_color_cmd_ceiling [OF False]) (rule fromhex_only_ValueError)
qed

lemma ceiling_negative:
  assumes "r < 0 \<or> g < 0 \<or> b < 0" "device_type \<noteq> ''floor''"
  shows "build_color_cmd r g b device_type brightness = Inl ValueError"
proof -
  have "CHR ''-'' \<in> set (''7E070503'' @ format_02X r @ format_02X g @ format_02X b @ ''00EF'')"
    using assms(1) format_02X_negative by auto
  then have "fromhex (''7E070503'' @ format_02X r @ format_02X g @ format_02X b @ ''00EF'') = Inl ValueError"
    using minus_not_hex by (intro fromhex_bad_char [of "CHR ''-''"]) simp_all
  then show ?thesis by (simp only: build_color_cmd_ceiling [OF assms(2)])
qed

lemma floor_negative:
  assumes "r < 0 \<or> g < 0 \<or> b < 0 \<or> v < 0"
  shows "build_color_cmd r g b ''floor'' v = Inl ValueError"
proof -
  have "CHR ''-'' \<in> set (''5A0001'' @ format_02X r @ format_02X g @ format_02X b @ ''00'' @
        format_02X v @ ''00A5'')"
    using assms format_02X_negative by auto
  then have "fromhex (''5A0001'' @ format_02X r @ format_02X g @ format_02X b @ ''00'' @
        format_02X v @ ''00A5'') = Inl ValueError"
    using minus_not_hex by (intro fromhex_bad_char [of "CHR ''-''"]) simp_all
  then show ?thesis by (simp only: build_color_cmd_floor)
qed

lemma ceiling_length:
  assumes "build_color_cmd r g b device_type brightness = Inr bs" "device_type \<noteq> ''floor''"
  shows "2 * length bs = 12 + length (format_02X r) + length (format_02X g) + length (format_02X b)"
proof -
  have "fromhex (''7E070503'' @ format_02X r @ format_02X g @ format_02X b @ ''00EF'') = Inr bs"
    using assms(1) by (simp only: build_color_cmd_ceiling [OF assms(2)])
  from fromhex_length [OF this ceiling_cmd_no_space] show ?thesis by simp
qed

lemma floor_length:
  assumes "build_color_cmd r g b ''floor'' v = Inr bs"
  shows "2 * length bs = 12 + length (format_02X r) + length (format_02X g) + length (format_02X b)
           + length (format_02X v)"
proof -
  have "fromhex (''5A0001'' @ format_02X r @ format_02X g @ format_02X b @ ''00'' @
        format_02X v @ ''00A5'') = Inr bs"
    using assms by (simp only: build_color_cmd_floor)
  from fromhex_length [OF this floor_cmd_no_space] show ?thesis by simp
qed

lemma ceiling_out_of_range:
  assumes "\<not> (0 \<le> r \<and> r \<le> 255 \<and> 0 \<le> g \<and> g \<le> 255 \<and> 0 \<le> b \<and> b \<le> 255)"
    "device_type \<noteq> ''floor''"
  shows "build_color_cmd r g b device_type brightness = Inl ValueError \<or>
         (\<exists>bs. build_color_cmd r g b device_type brightness = Inr bs \<and> 9 < length bs)"
proof (cases "r < 0 \<or> g < 0 \<or> b < 0")
  case True
  then show ?thesis using assms(2) by (simp add: ceiling_negative)
next
  case False
  then have big: "255 < r \<or> 255 < g \<or> 255 < b" using assms(1) by linarith
  show ?thesis
  proof (cases "build_color_cmd r g b device_type brightness")
    case (Inl e)
    then have "e = ValueError" by (rule build_color_cmd_only_ValueError)
    with Inl show ?thesis by simp
  next
    case (Inr bs)
    have "19 \<le> 2 * length bs"
      using big ceiling_length [OF Inr assms(2)] format_02X_length [of r] format_02X_length [of g]
        format_02X_length [of b] format_02X_length_big [of r] format_02X_length_big [of g]
        format_02X_length_big [of b]
      by linarith
    then show ?thesis using Inr by simp
  qed
qed

lemma floor_out_of_range:
  assumes "\<not> (0 \<le> r \<and> r \<le> 255 \<and> 0 \<le> g \<and> g \<le> 255 \<and> 0 \<le> b \<and> b \<le> 255 \<and> 0 \<le> v \<and> v \<le> 255)"
  shows "build_color_cmd r g b ''floor'' v = Inl ValueError \<or>
         (\<exists>bs. build_color_cmd r g b ''floor'' v = Inr bs \<and> 10 < length bs)"
proof (cases "r < 0 \<or> g < 0 \<or> b < 0 \<or> v < 0")
  case True
  then show ?thesis by (simp add: floor_negative)
next
  case False
  then have big: "255 < r \<or> 255 < g \<or> 255 < b \<or> 255 < v" using assms(1) by linarith
  show ?thesis
  proof (cases "build_color_cmd r g b ''floor'' v")
    case (Inl e)
    then have "e = ValueError" by (rule build_color_cmd_only_ValueError)
    with Inl show ?thesis by simp
  next
    case (Inr bs)
    have "21 \<le> 2 * length bs"
      using big floor_length [OF Inr] format_02X_length [of r] format_02X_length [of g]
        format_02X_length [of b] format_02X_length [of v] format_02X_length_big [of r]
        format_02X_length_big [of g] format_02X_length_big [of b] format_02X_length_big [of v]
      by linarith
    then show ?thesis using Inr by simp
  qed
qed

lemma format_02X_256: "format_02X 256 = ''100''"
  by (simp add: format_02X_def to_hex.simps hex_digit_def)

lemma format_02X_length_byte: "0 \<le> i \<Longrightarrow> i \<le> 255 \<Longrightarrow> length (format_02X i) = 2"
  by (simp add: format_02X_byte)

lemma lone_256:
  assumes "(x = 256 \<and> 0 \<le> y \<and> y \<le> 255 \<and> 0 \<le> z \<and> z \<le> 255) \<or>
           (y = 256 \<and> 0 \<le> x \<and> x \<le> 255 \<and> 0 \<le> z \<and> z \<le> 255) \<or>
           (z = 256 \<and> 0 \<le> x \<and> x \<le> 255 \<and> 0 \<le> y \<and> y \<le> 255)"
     "0 \<le> v" "v \<le> 255"
  shows "build_color_cmd x y z device_type v = Inl ValueError"
proof -
  have len: "length (format_02X x) + length (format_02X y) + length (format_02X z) = 7"
    using assms(1) by (auto simp: format_02X_256 format_02X_length_byte)
  show ?thesis
  proof (cases "device_type = ''floor''")
    case True
    have "length (''5A0001'' @ format_02X x @ format_02X y @ format_02X z @ ''00'' @
        format_02X v @ ''00A5'') = 21"
      using len format_02X_length_byte [OF assms(2,3)] by simp
    then have "odd (length (''5A0001'' @ format_02X x @ format_02X y @ format_02X z @ ''00'' @
        format_02X v @ ''00A5''))"
      by presburger
    with floor_cmd_no_space
    have "fromhex (''5A0001'' @ format_02X x @ format_02X y @ format_02X z @ ''00'' @
        format_02X v @ ''00A5'') = Inl ValueError"
      by (rule fromhex_odd)
    then show ?thesis using True by (simp only: build_color_cmd_floor)
  next
    case False
    have "length (''7E070503'' @ format_02X x @ format_02X y @ format_02X z @ ''00EF'') = 19"
      using len by simp
    then have "odd (length (''7E070503'' @ format_02X x @ format_02X y @ format_02X z @ ''00EF''))"
      by presburger
    with ceiling_cmd_no_space
    have "fromhex (''7E070503'' @ format_02X x @ format_02X y @ format_02X z @ ''00EF'') = Inl ValueError"
      by (rule fromhex_odd)
    then show ?thesis by (simp only: build_color_cmd_ceiling [OF False])
  qed
qed

lemma brightness_custom_refused:
  "\<not> (0 \<le> v \<and> v \<le> 255) \<Longrightarrow> chosen_brightness ''5'' (Some v) = Inl OutOfRange"
  by (simp add: chosen_brightness_def)

lemma ceiling_not_floor: "''ceiling'' \<noteq> ''floor''"
  by simp

subsection \<open>Claims about the command encoder\<close>

text \<open>
  C3 (as amended). For every \<open>r\<close>, \<open>g\<close>, \<open>b\<close> in 0..255, \<^verbatim>\<open>build_color_cmd\<close> for
  the ceiling class returns exactly the nine bytes 7E 07 05 03 r g b 00 EF, so the colour
  is in the 5th to 7th bytes, after a header of four; for the floor class, with a
  brightness in 0..255, it returns exactly the ten bytes 5A 00 01 r g b 00 brightness 00 A5,
  so the colour is in the 4th to 6th bytes.
\<close>

theorem build_color_cmd_layout:
  assumes "0 \<le> r" "r \<le> 255" "0 \<le> g" "g \<le> 255" "0 \<le> b" "b \<le> 255"
  shows "(\<exists>bs. build_color_cmd r g b ''ceiling'' brightness = Inr bs \<and> length bs = 9 \<and>
               take 3 (drop 4 bs) = [r, g, b] \<and> bs = [126, 7, 5, 3, r, g, b, 0, 239]) \<and>
         (0 \<le> brightness \<and> brightness \<le> 255 \<longrightarrow>
            (\<exists>bs. build_color_cmd r g b ''floor'' brightness = Inr bs \<and> length bs = 10 \<and>
               take 3 (drop 3 bs) = [r, g, b] \<and>
               bs = [90, 0, 1, r, g, b, 0, brightness, 0, 165]))"
  using assms by (simp add: ceiling_bytes floor_bytes)

theorem build_color_cmd_layout_witness:
  "(\<exists>bs. build_color_cmd 255 147 41 ''ceiling'' 255 = Inr bs \<and> length bs = 9 \<and>
         take 3 (drop 4 bs) = [255, 147, 41] \<and> bs = [126, 7, 5, 3, 255, 147, 41, 0, 239]) \<and>
   (\<exists>bs. build_color_cmd 255 147 41 ''floor'' 255 = Inr bs \<and> length bs = 10 \<and>
         take 3 (drop 3 bs) = [255, 147, 41] \<and> bs = [90, 0, 1, 255, 147, 41, 0, 255, 0, 165])"
  using build_color_cmd_layout [of 255 147 41 255] by simp

text \<open>
  The claim as written fails for the ceiling class: the 4th to 6th bytes of the ceiling
  payload for the colour (10, 20, 30) are 03, 10, 20.
\<close>

theorem build_color_cmd_ceiling_counterexample:
  "\<not> (\<exists>bs. build_color_cmd 10 20 30 ''ceiling'' 255 = Inr bs \<and> length bs = 9 \<and>
          take 3 (drop 3 bs) = [10, 20, 30])"
proof -
  have "build_color_cmd 10 20 30 ''ceiling'' 255 = Inr [126, 7, 5, 3, 10, 20, 30, 0, 239]"
    by (rule ceiling_bytes) simp_all
  then show ?thesis by simp
qed

text \<open>
  C9. Every \<open>device_type\<close> other than the exact string \<^verbatim>\<open>"floor"\<close> is encoded as the
  ceiling class: the result is that of \<^verbatim>\<open>"ceiling"\<close> whatever the brightness, for
  components in 0..255 it is the nine-byte ceiling layout, and it differs from what the
  floor branch returns, which is taken on equality with \<^verbatim>\<open>"floor"\<close> only.
\<close>

theorem build_color_cmd_not_floor_is_ceiling:
  assumes "device_type \<noteq> ''floor''"
  shows "build_color_cmd r g b device_type brightness = build_color_cmd r g b ''ceiling'' 255 \<and>
         (0 \<le> r \<and> r \<le> 255 \<and> 0 \<le> g \<and> g \<le> 255 \<and> 0 \<le> b \<and> b \<le> 255 \<longrightarrow>
            build_color_cmd r g b device_type brightness = Inr [126, 7, 5, 3, r, g, b, 0, 239] \<and>
            (0 \<le> brightness \<and> brightness \<le> 255 \<longrightarrow>
               build_color_cmd r g b ''floor'' brightness = Inr [90, 0, 1, r, g, b, 0, brightness, 0, 165] \<and>
               build_color_cmd r g b device_type brightness \<noteq> build_color_cmd r g b ''floor'' brightness))"
proof -
  have "build_color_cmd r g b device_type brightness = build_color_cmd r g b ''ceiling'' 255"
    by (simp only: build_color_cmd_ceiling [OF assms] build_color_cmd_ceiling [OF ceiling_not_floor])
  then show ?thesis using assms by (auto simp: ceiling_bytes floor_bytes)
qed

theorem build_color_cmd_not_floor_is_ceiling_witness:
  "build_color_cmd 1 2 3 ''Floor'' 128 = build_color_cmd 1 2 3 ''ceiling'' 255 \<and>
   build_color_cmd 1 2 3 ''Floor'' 128 = Inr [126, 7, 5, 3, 1, 2, 3, 0, 239] \<and>
   build_color_cmd 1 2 3 ''floor'' 128 = Inr [90, 0, 1, 1, 2, 3, 0, 128, 0, 165] \<and>
   build_color_cmd 1 2 3 ''Floor'' 128 \<noteq> build_color_cmd 1 2 3 ''floor'' 128"
  using build_color_cmd_not_floor_is_ceiling [of "''Floor''" 1 2 3 128] by auto

text \<open>
  C4 (as amended). \<^verbatim>\<open>build_color_cmd\<close> has no range check of its own and raises no
  \<^verbatim>\<open>InvalidParameter\<close>. A negative component (so \<open>-1\<close>) always makes the hexadecimal
  parse raise \<^verbatim>\<open>ValueError\<close>, and so does a single component of 256 beside components
  and a brightness in range. Any other component outside 0..255 either raises
  \<^verbatim>\<open>ValueError\<close> or comes back as a payload longer than the class's nine or ten bytes:
  a value is never cut or wrapped into the normal layout. The brightness menu refuses a
  typed level outside 0..255.
\<close>

theorem build_color_cmd_out_of_range:
  "(r < 0 \<or> g < 0 \<or> b < 0 \<longrightarrow> build_color_cmd r g b device_type brightness = Inl ValueError) \<and>
   (((r = 256 \<and> 0 \<le> g \<and> g \<le> 255 \<and> 0 \<le> b \<and> b \<le> 255) \<or>
     (g = 256 \<and> 0 \<le> r \<and> r \<le> 255 \<and> 0 \<le> b \<and> b \<le> 255) \<or>
     (b = 256 \<and> 0 \<le> r \<and> r \<le> 255 \<and> 0 \<le> g \<and> g \<le> 255)) \<and>
    0 \<le> brightness \<and> brightness \<le> 255 \<longrightarrow>
      build_color_cmd r g b device_type brightness = Inl ValueError) \<and>
   (device_type \<noteq> ''floor'' \<and>
    \<not> (0 \<le> r \<and> r \<le> 255 \<and> 0 \<le> g \<and> g \<le> 255 \<and> 0 \<le> b \<and> b \<le> 255) \<longrightarrow>
      build_color_cmd r g b device_type brightness = Inl ValueError \<or>
      (\<exists>bs. build_color_cmd r g b device_type brightness = Inr bs \<and> 9 < length bs)) \<and>
   (\<not> (0 \<le> r \<and> r \<le> 255 \<and> 0 \<le> g \<and> g \<le> 255 \<and> 0 \<le> b \<and> b \<le> 255 \<and>
        0 \<le> brightness \<and> brightness \<le> 255) \<longrightarrow>
      build_color_cmd r g b ''floor'' brightness = Inl ValueError \<or>
      (\<exists>bs. build_color_cmd r g b ''floor'' brightness = Inr bs \<and> 10 < length bs)) \<and>
   (\<not> (0 \<le> v \<and> v \<le> 255) \<longrightarrow> chosen_brightness ''5'' (Some v) = Inl OutOfRange)"
proof (intro conjI impI)
  assume neg: "r < 0 \<or> g < 0 \<or> b < 0"
  show "build_color_cmd r g b device_type brightness = Inl ValueError"
  proof (cases "device_type = ''floor''")
    case True
    then show ?thesis using neg floor_negative [of r g b brightness] by blast
  next
    case False
    then show ?thesis using neg by (simp add: ceiling_negative)
  qed
next
  assume "((r = 256 \<and> 0 \<le> g \<and> g \<le> 255 \<and> 0 \<le> b \<and> b \<le> 255) \<or>
     (g = 256 \<and> 0 \<le> r \<and> r \<le> 255 \<and> 0 \<le> b \<and> b \<le> 255) \<or>
     (b = 256 \<and> 0 \<le> r \<and> r \<le> 255 \<and> 0 \<le> g \<and> g \<le> 255)) \<and>
    0 \<le> brightness \<and> brightness \<le> 255"
  then show "build_color_cmd r g b device_type brightness = Inl ValueError"
    by (intro lone_256) blast+
next
  assume "device_type \<noteq> ''floor'' \<and>
    \<not> (0 \<le> r \<and> r \<le> 255 \<and> 0 \<le> g \<and> g \<le> 255 \<and> 0 \<le> b \<and> b \<le> 255)"
  then show "build_color_cmd r g b device_type brightness = Inl ValueError \<or>
      (\<exists>bs. build_color_cmd r g b device_type brightness = Inr bs \<and> 9 < length bs)"
    by (intro ceiling_out_of_range) blast+
next
  assume "\<not> (0 \<le> r \<and> r \<le> 255 \<and> 0 \<le> g \<and> g \<le> 255 \<and> 0 \<le> b \<and> b \<le> 255 \<and>
        0 \<le> brightness \<and> brightness \<le> 255)"
  then show "build_color_cmd r g b ''floor'' brightness = Inl ValueError \<or>
      (\<exists>bs. build_color_cmd r g b ''floor'' brightness = Inr bs \<and> 10 < length bs)"
    by (rule floor_out_of_range)
next
  assume "\<not> (0 \<le> v \<and> v \<le> 255)"
  then show "chosen_brightness ''5'' (Some v) = Inl OutOfRange"
    by (rule brightness_custom_refused)
qed

theorem build_color_cmd_out_of_range_witness:
  "build_color_cmd (-1) 0 0 ''ceiling'' 255 = Inl ValueError \<and>
   build_color_cmd 256 0 0 ''ceiling'' 255 = Inl ValueError \<and>
   (build_color_cmd 300 0 0 ''ceiling'' 255 = Inl ValueError \<or>
      (\<exists>bs. build_color_cmd 300 0 0 ''ceiling'' 255 = Inr bs \<and> 9 < length bs)) \<and>
   (build_color_cmd 0 0 0 ''floor'' 256 = Inl ValueError \<or>
      (\<exists>bs. build_color_cmd 0 0 0 ''floor'' 256 = Inr bs \<and> 10 < length bs)) \<and>
   chosen_brightness ''5'' (Some 256) = Inl OutOfRange"
  using build_color_cmd_out_of_range [of "-1" 0 0 "''ceiling''" 255 256]
    build_color_cmd_out_of_range [of 256 0 0 "''ceiling''" 255 256]
    build_color_cmd_out_of_range [of 300 0 0 "''ceiling''" 255 256]
    build_color_cmd_out_of_range [of 0 0 0 "''ceiling''" 256 256]
  by simp

text \<open>
  The claim as written fails: the red component 4096 is not rejected; the encoder returns
  ten bytes for the ceiling class, with the value spread over two of them.
\<close>

theorem build_color_cmd_range_counterexample:
  "build_color_cmd 4096 0 0 ''ceiling'' 255 = Inr [126, 7, 5, 3, 16, 0, 0, 0, 0, 239]"
  by (simp add: build_color_cmd_def format_02X_def to_hex.simps hex_digit_def hex_val_def
      is_space_def)


subsection \<open>Claims about the brightness menu\<close>

lemma chosen_brightness_custom:
  "0 \<le> level \<Longrightarrow> level \<le> 255 \<Longrightarrow> chosen_brightness ''5'' (Some level) = Inr (Some level)"
  by (simp add: chosen_brightness_def)

text \<open>
  C5. For every level in 0..255 typed into the brightness menu of a known device: when the
  device's class is floor, the menu builds the ten bytes 5A 00 02 00 00 00 00 level 00 A5
  (colour fields zero) and hands them to \<^verbatim>\<open>send_command\<close>; for any other class (the
  ceiling fixtures) it only prints that brightness is not supported and calls the adapter
  not at all.
\<close>

theorem brightness_menu_by_class:
  assumes "0 \<le> level" "level \<le> 255" "lookup_mapping prefix = Inr m"
  shows "(dtype m = ''floor'' \<longrightarrow>
            brightness_menu cl (addr, name, prefix) ''5'' (Some level) =
              (case send_command cl (addr, name, prefix) [90, 0, 2, 0, 0, 0, 0, level, 0, 165] True of
                 (evs, Inl e) \<Rightarrow> (evs, Inl e)
               | (evs, Inr fb) \<Rightarrow> (evs, Inr (Sent fb)))) \<and>
         (dtype m \<noteq> ''floor'' \<longrightarrow>
            brightness_menu cl (addr, name, prefix) ''5'' (Some level) = ([Sleep 2], Inr NotSupported))"
  using assms
  by (simp add: brightness_menu_def chosen_brightness_custom format_02X_byte
      fromhex_literal_pairs fromhex_byte del: fromhex.simps(2) fromhex.simps(3))

theorem brightness_menu_by_class_witness:
  "brightness_menu
     \<lparr>connect_raises = None, connected_after_connect = True,
      write_raises = (\<lambda>k u p a. None), connected_at_cleanup = True, disconnect_raises = None\<rparr>
     (''BE:60:4D:00:58:37'', ''KS03~370058'', ''KS03~'') ''5'' (Some 128) =
     ([Connect ''BE:60:4D:00:58:37'', Sleep 0.3,
       Write (UUID_TEMPLATE ''AFD1'') [91, 240, 1, 181] False, Sleep 0.5,
       Write (UUID_TEMPLATE ''AFD1'') [90, 0, 2, 0, 0, 0, 0, 128, 0, 165] False, Sleep 0.2,
       Disconnect, Sleep 1], Inr (Sent SentOk)) \<and>
   brightness_menu
     \<lparr>connect_raises = None, connected_after_connect = True,
      write_raises = (\<lambda>k u p a. None), connected_at_cleanup = True, disconnect_raises = None\<rparr>
     (''AA:BB:CC:11:22:33'', ''KS03-112233'', ''KS03-'') ''5'' (Some 128) =
     ([Sleep 2], Inr NotSupported)"
proof -
  have floor: "lookup_mapping ''KS03~'' =
      Inr \<lparr>service = ''AFD0'', write_short = ''AFD1'', dtype = ''floor''\<rparr>"
    by (simp add: lookup_mapping_def DEVICE_MAPPINGS_def)
  have ceil: "lookup_mapping ''KS03-'' =
      Inr \<lparr>service = ''FFF0'', write_short = ''FFF3'', dtype = ''ceiling''\<rparr>"
    by (simp add: lookup_mapping_def DEVICE_MAPPINGS_def)
  have on: "build_on_off_cmd True = Inr [91, 240, 1, 181]"
    by (simp add: build_on_off_cmd_def hex_val_def is_space_def)
  show ?thesis
    using brightness_menu_by_class [OF _ _ floor, of 128] brightness_menu_by_class [OF _ _ ceil, of 128]
    by (simp add: send_command_def color_sequence_def floor on)
qed

subsection \<open>Claims about the registry and discovery\<close>

lemma startswith_take: "startswith n p = (take (length p) n = p)"
  by (induction n p rule: startswith.induct) auto

lemma first_prefix_Some:
  "first_prefix ks n = Some p \<Longrightarrow> p \<in> set ks \<and> startswith n p"
  by (induction ks) (auto split: if_splits)

lemma first_prefix_None:
  "(first_prefix ks n = None) = (\<forall>q \<in> set ks. \<not> startswith n q)"
  by (induction ks) auto

lemma DEVICE_MAPPINGS_keys:
  "map fst DEVICE_MAPPINGS = [''KS03-'', ''KS03~'', ''KS04-'', ''KS01-'', ''KS02-'']"
  by (simp add: DEVICE_MAPPINGS_def)

lemma DEVICE_MAPPINGS_key_length: "q \<in> set (map fst DEVICE_MAPPINGS) \<Longrightarrow> length q = 5"
  by (auto simp: DEVICE_MAPPINGS_keys)

text \<open>
  C6. For every advertised name the inner loop of \<^verbatim>\<open>scan_devices\<close> finds no prefix
  exactly when no key of \<^verbatim>\<open>DEVICE_MAPPINGS\<close> is a prefix of the name, and otherwise
  finds a key that is a literal prefix of the name and at least as long as every other
  matching key (in this table: the only matching one). \<^verbatim>\<open>"KS03~370058"\<close> gives
  \<^verbatim>\<open>KS03~\<close>, the floor profile on AFD0/AFD1; \<^verbatim>\<open>"KS99-anything"\<close> gives nothing, and
  such a device is left out of the scan result without an error.
\<close>

theorem registry_resolution:
  "(first_prefix (map fst DEVICE_MAPPINGS) name = None \<longleftrightarrow>
      (\<forall>q \<in> set (map fst DEVICE_MAPPINGS). \<not> startswith name q)) \<and>
   (\<forall>p. first_prefix (map fst DEVICE_MAPPINGS) name = Some p \<longrightarrow>
      p \<in> set (map fst DEVICE_MAPPINGS) \<and> startswith name p \<and>
      (\<forall>q \<in> set (map fst DEVICE_MAPPINGS). startswith name q \<longrightarrow> length q \<le> length p \<and> q = p)) \<and>
   first_prefix (map fst DEVICE_MAPPINGS) ''KS03~370058'' = Some ''KS03~'' \<and>
   lookup_mapping ''KS03~'' = Inr \<lparr>service = ''AFD0'', write_short = ''AFD1'', dtype = ''floor''\<rparr> \<and>
   first_prefix (map fst DEVICE_MAPPINGS) ''KS99-anything'' = None \<and>
   match_devices [(address, Some ''KS99-anything'')] = []"
proof (intro conjI allI impI)
  show "first_prefix (map fst DEVICE_MAPPINGS) name = None \<longleftrightarrow>
      (\<forall>q \<in> set (map fst DEVICE_MAPPINGS). \<not> startswith name q)"
    by (rule first_prefix_None)
next
  fix p assume "first_prefix (map fst DEVICE_MAPPINGS) name = Some p"
  then show "p \<in> set (map fst DEVICE_MAPPINGS)" and "startswith name p"
    using first_prefix_Some by blast+
next
  fix p assume found: "first_prefix (map fst DEVICE_MAPPINGS) name = Some p"
  then have p: "p \<in> set (map fst DEVICE_MAPPINGS)" "startswith name p"
    using first_prefix_Some by blast+
  show "\<forall>q \<in> set (map fst DEVICE_MAPPINGS). startswith name q \<longrightarrow> length q \<le> length p \<and> q = p"
  proof (intro ballI impI)
    fix q assume q: "q \<in> set (map fst DEVICE_MAPPINGS)" "startswith name q"
    have len: "length q = length p"
      using p(1) q(1) by (simp only: DEVICE_MAPPINGS_key_length)
    moreover have "q = p"
      using p(2) q(2) len by (simp add: startswith_take)
    ultimately show "length q \<le> length p \<and> q = p" by simp
  qed
next
  show "first_prefix (map fst DEVICE_MAPPINGS) ''KS03~370058'' = Some ''KS03~''"
    by (simp add: DEVICE_MAPPINGS_keys)
next
  show "lookup_mapping ''KS03~'' = Inr \<lparr>service = ''AFD0'', write_short = ''AFD1'', dtype = ''floor''\<rparr>"
    by (simp add: lookup_mapping_def DEVICE_MAPPINGS_def)
next
  show none: "first_prefix (map fst DEVICE_MAPPINGS) ''KS99-anything'' = None"
    by (simp add: DEVICE_MAPPINGS_keys)
  then show "match_devices [(address, Some ''KS99-anything'')] = []"
    by simp
qed

theorem registry_resolution_witness:
  "first_prefix (map fst DEVICE_MAPPINGS) ''KS03~370058'' = Some ''KS03~'' \<and>
   ''KS03~'' \<in> set (map fst DEVICE_MAPPINGS) \<and> startswith ''KS03~370058'' ''KS03~'' \<and>
   \<not> startswith ''KS03~370058'' ''KS03-'' \<and>
   first_prefix (map fst DEVICE_MAPPINGS) ''KS99-anything'' = None \<and>
   \<not> startswith ''KS99-anything'' ''KS03-''"
proof -
  have k: "''KS03-'' \<in> set (map fst DEVICE_MAPPINGS)" by (simp add: DEVICE_MAPPINGS_keys)
  from registry_resolution [of "''KS03~370058''"] registry_resolution [of "''KS99-anything''"] k
  show ?thesis by auto
qed

text \<open>
  C7 (as amended). \<^verbatim>\<open>scan_devices\<close> and \<^verbatim>\<open>find_device_by_prefix\<close> make no check of
  the duration: for every timeout, zero and negative ones included, they call the scanner
  once with exactly that value, raise only what the scanner raises, and otherwise return
  the filtered advertisements.
\<close>

theorem scan_passes_any_timeout:
  "fst (scan_devices discover timeout) = [Discover timeout] \<and>
   (\<forall>e. snd (scan_devices discover timeout) = Inl e \<longleftrightarrow> discover timeout = Inl e) \<and>
   (\<forall>found. discover timeout = Inr found \<longrightarrow>
      snd (scan_devices discover timeout) = Inr (match_devices found)) \<and>
   fst (find_device_by_prefix discover prefix timeout) = [Discover timeout] \<and>
   (\<forall>e. snd (find_device_by_prefix discover prefix timeout) = Inl e \<longleftrightarrow> discover timeout = Inl e) \<and>
   (\<forall>found. discover timeout = Inr found \<longrightarrow>
      snd (find_device_by_prefix discover prefix timeout) = Inr (first_address prefix found))"
  by (auto simp: scan_devices_def find_device_by_prefix_def split: sum.splits)

theorem scan_passes_any_timeout_witness:
  "fst (scan_devices (\<lambda>t. Inr [(''AA:BB:CC:11:22:33'', Some ''KS03-112233'')]) (- 1)) = [Discover (- 1)] \<and>
   snd (scan_devices (\<lambda>t. Inr [(''AA:BB:CC:11:22:33'', Some ''KS03-112233'')]) (- 1)) =
     Inr (match_devices [(''AA:BB:CC:11:22:33'', Some ''KS03-112233'')]) \<and>
   snd (find_device_by_prefix (\<lambda>t. Inr [(''AA:BB:CC:11:22:33'', Some ''KS03-112233'')]) ''KS03-'' (- 1)) =
     Inr (first_address ''KS03-'' [(''AA:BB:CC:11:22:33'', Some ''KS03-112233'')])"
  using scan_passes_any_timeout
    [of "\<lambda>t. Inr [(''AA:BB:CC:11:22:33'', Some ''KS03-112233'')]" "- 1" "''KS03-''"]
  by simp

text \<open>
  The claim as written fails: with a duration of zero the scan is made and its result
  returned; nothing is rejected.
\<close>

theorem scan_zero_timeout_counterexample:
  "scan_devices (\<lambda>t. Inr [(''AA:BB:CC:11:22:33'', Some ''KS03-112233'')]) 0 =
     ([Discover 0], Inr [(''AA:BB:CC:11:22:33'', ''KS03-112233'', ''KS03-'')])"
  by (simp add: scan_devices_def DEVICE_MAPPINGS_keys)


subsection \<open>Claims about the write engines\<close>

lemma writes_of_append: "writes_of (xs @ ys) = writes_of xs @ writes_of ys"
  by (simp add: writes_of_def)

lemma writes_of_cleanup: "writes_of (cleanup cl) = []"
  by (simp add: writes_of_def cleanup_def)

lemma write_cascade_trace:
  "fst (write_cascade cl char_short payload) = spec_attempts cl payload 0 (spec_plan char_short)"
proof (cases "write_raises cl 0 (UUID_TEMPLATE char_short) payload False")
  case None
  then show ?thesis by (simp add: write_cascade_def spec_plan_def Let_def)
next
  case e1: (Some e1)
  show ?thesis
  proof (cases "write_raises cl 1 (UUID_TEMPLATE char_short) payload True")
    case None
    with e1 show ?thesis by (simp add: write_cascade_def spec_plan_def Let_def)
  next
    case e2: (Some e2)
    consider (fff3) "upper char_short = ''FFF3''" | (afd3) "upper char_short = ''AFD3''"
      | (other) "upper char_short \<noteq> ''FFF3''" "upper char_short \<noteq> ''AFD3''"
      by blast
    then show ?thesis
    proof cases
      case fff3
      with e1 e2 show ?thesis
        by (simp add: write_cascade_def spec_plan_def alt_char_short_def Let_def
            numeral_2_eq_2 numeral_3_eq_3 split: option.splits)
    next
      case afd3
      with e1 e2 show ?thesis
        by (simp add: write_cascade_def spec_plan_def alt_char_short_def Let_def
            numeral_2_eq_2 numeral_3_eq_3 split: option.splits)
    next
      case other
      with e1 e2 show ?thesis
        by (simp add: write_cascade_def spec_plan_def alt_char_short_def Let_def)
    qed
  qed
qed

lemma spec_attempts_only_writes: "writes_of (spec_attempts cl payload k plan) = spec_attempts cl payload k plan"
  by (induction plan arbitrary: k) (auto simp: writes_of_def split: option.splits)

lemma write_body_writes:
  "writes_of (fst (write_body cl address char_short payload)) =
     (if connect_raises cl = None \<and> connected_after_connect cl
      then spec_attempts cl payload 0 (spec_plan char_short) else [])"
proof (cases "connect_raises cl = None \<and> connected_after_connect cl")
  case False
  then show ?thesis by (auto simp: write_body_def writes_of_def split: option.splits)
next
  case True
  obtain ws r where c: "write_cascade cl char_short payload = (ws, r)"
    by (cases "write_cascade cl char_short payload")
  then have ws: "ws = spec_attempts cl payload 0 (spec_plan char_short)"
    using write_cascade_trace [of cl char_short payload] by simp
  have "writes_of (fst (write_body cl address char_short payload)) = writes_of ws"
    using True c by (cases r) (auto simp: write_body_def writes_of_def)
  then show ?thesis using True ws by (simp add: spec_attempts_only_writes)
qed

text \<open>
  C1. The writes of one \<^verbatim>\<open>write_command\<close> call of \<^verbatim>\<open>led_control.py\<close> are, after a
  successful connection, exactly the plan of section 4.4 run in order and stopped after
  the first write that succeeds: primary without and with acknowledgement, then, only for
  the short codes FFF3 and AFD3 (compared in upper case), the other code of the pair
  without and with acknowledgement. For every other short code there are at most two
  writes. When the connection fails there is no write.
\<close>

theorem write_command_fallback_order:
  "writes_of (fst (write_command cl address service_short char_short payload)) =
     (if connect_raises cl = None \<and> connected_after_connect cl
      then spec_attempts cl payload 0 (spec_plan char_short) else []) \<and>
   (upper char_short \<noteq> ''FFF3'' \<and> upper char_short \<noteq> ''AFD3'' \<longrightarrow>
      length (writes_of (fst (write_command cl address service_short char_short payload))) \<le> 2)"
proof -
  have "fst (write_command cl address service_short char_short payload) =
          fst (write_body cl address char_short payload) @ cleanup cl"
    by (simp add: write_command_def split: prod.splits)
  then have "writes_of (fst (write_command cl address service_short char_short payload)) =
          writes_of (fst (write_body cl address char_short payload))"
    by (simp only: writes_of_append writes_of_cleanup append_Nil2)
  then have w: "writes_of (fst (write_command cl address service_short char_short payload)) =
     (if connect_raises cl = None \<and> connected_after_connect cl
      then spec_attempts cl payload 0 (spec_plan char_short) else [])"
    by (simp only: write_body_writes)
  have "upper char_short \<noteq> ''FFF3'' \<and> upper char_short \<noteq> ''AFD3'' \<longrightarrow>
      length (spec_attempts cl payload 0 (spec_plan char_short)) \<le> 2"
    by (simp add: spec_plan_def split: option.splits)
  with w show ?thesis by simp
qed

theorem write_command_fallback_order_witness:
  "writes_of (fst (write_command
      \<lparr>connect_raises = None, connected_after_connect = True,
       write_raises = (\<lambda>k u p a. Some ''not permitted''), connected_at_cleanup = True,
       disconnect_raises = None\<rparr>
      ''AA:BB:CC:11:22:33'' ''FFF0'' ''FFF3'' [91, 240, 1, 181])) =
     [Write (UUID_TEMPLATE ''FFF3'') [91, 240, 1, 181] False,
      Write (UUID_TEMPLATE ''FFF3'') [91, 240, 1, 181] True,
      Write (UUID_TEMPLATE ''AFD3'') [91, 240, 1, 181] False,
      Write (UUID_TEMPLATE ''AFD3'') [91, 240, 1, 181] True] \<and>
   writes_of (fst (write_command
      \<lparr>connect_raises = None, connected_after_connect = True,
       write_raises = (\<lambda>k u p a. None), connected_at_cleanup = True,
       disconnect_raises = None\<rparr>
      ''AA:BB:CC:11:22:33'' ''FFF0'' ''FFF3'' [91, 240, 1, 181])) =
     [Write (UUID_TEMPLATE ''FFF3'') [91, 240, 1, 181] False] \<and>
   length (writes_of (fst (write_command
      \<lparr>connect_raises = None, connected_after_connect = True,
       write_raises = (\<lambda>k u p a. Some ''not permitted''), connected_at_cleanup = True,
       disconnect_raises = None\<rparr>
      ''BE:60:4D:00:58:37'' ''AFD0'' ''AFD1'' [91, 240, 1, 181]))) \<le> 2"
proof -
  have u: "upper ''FFF3'' = ''FFF3''" "upper ''AFD1'' = ''AFD1''"
    by (simp_all add: upper_def upper_char_def)
  show ?thesis
    using write_command_fallback_order
        [of "\<lparr>connect_raises = None, connected_after_connect = True,
             write_raises = (\<lambda>k u p a. Some ''not permitted''), connected_at_cleanup = True,
             disconnect_raises = None\<rparr>" "''AA:BB:CC:11:22:33''" "''FFF0''" "''FFF3''" "[91, 240, 1, 181]"]
      write_command_fallback_order
        [of "\<lparr>connect_raises = None, connected_after_connect = True,
             write_raises = (\<lambda>k u p a. None), connected_at_cleanup = True,
             disconnect_raises = None\<rparr>" "''AA:BB:CC:11:22:33''" "''FFF0''" "''FFF3''" "[91, 240, 1, 181]"]
      write_command_fallback_order
        [of "\<lparr>connect_raises = None, connected_after_connect = True,
             write_raises = (\<lambda>k u p a. Some ''not permitted''), connected_at_cleanup = True,
             disconnect_raises = None\<rparr>" "''BE:60:4D:00:58:37''" "''AFD0''" "''AFD1''" "[91, 240, 1, 181]"]
    by (simp add: spec_plan_def u)
qed

text \<open>
  C2. With the short code FFF3 and four writes that fail with the reasons E1, E2, E3 and
  E4, \<^verbatim>\<open>write_command\<close> raises a \<^verbatim>\<open>RuntimeError\<close> whose text names E1, E2 and E4:
  the reason of the third attempt is caught without a name and is missing.
\<close>

theorem write_command_four_failures_message:
  "snd (write_command
      \<lparr>connect_raises = None, connected_after_connect = True,
       write_raises = (\<lambda>k u p a. Some (if k = 0 then ''E1'' else if k = 1 then ''E2''
                                         else if k = 2 then ''E3'' else ''E4'')),
       connected_at_cleanup = True, disconnect_raises = None\<rparr>
      ''AA:BB:CC:11:22:33'' ''FFF0'' ''FFF3'' [91, 240, 1, 181]) =
     Inl (RuntimeError ''All write attempts failed: E1, E2, E4'')"
proof -
  have u: "upper ''FFF3'' = ''FFF3''"
    by (simp add: upper_def upper_char_def)
  show ?thesis
    by (simp add: write_command_def write_body_def write_cascade_def alt_char_short_def Let_def u)
qed

text \<open>
  C10. \<^verbatim>\<open>write_command\<close> of \<^verbatim>\<open>led_menu.py\<close> writes to the characteristic derived from
  \<open>char_short\<close> and to no other: after a successful connection one write without
  response and, only if that one raised, one write with response; at most two writes in
  all, and none when the connection fails.
\<close>

theorem menu_write_command_writes:
  "writes_of (fst (menu_write_command cl address service_short char_short payload)) =
     (if connect_raises cl = None \<and> connected_after_connect cl
      then (case write_raises cl 0 (UUID_TEMPLATE char_short) payload False of
              None \<Rightarrow> [Write (UUID_TEMPLATE char_short) payload False]
            | Some e \<Rightarrow> [Write (UUID_TEMPLATE char_short) payload False,
                         Write (UUID_TEMPLATE char_short) payload True])
      else []) \<and>
   length (writes_of (fst (menu_write_command cl address service_short char_short payload))) \<le> 2 \<and>
   set (writes_of (fst (menu_write_command cl address service_short char_short payload))) \<subseteq>
     {Write (UUID_TEMPLATE char_short) payload False, Write (UUID_TEMPLATE char_short) payload True}"
proof -
  have eq: "writes_of (fst (menu_write_command cl address service_short char_short payload)) =
     (if connect_raises cl = None \<and> connected_after_connect cl
      then (case write_raises cl 0 (UUID_TEMPLATE char_short) payload False of
              None \<Rightarrow> [Write (UUID_TEMPLATE char_short) payload False]
            | Some e \<Rightarrow> [Write (UUID_TEMPLATE char_short) payload False,
                         Write (UUID_TEMPLATE char_short) payload True])
      else [])"
    by (simp add: menu_write_command_def menu_write_body_def writes_of_def Let_def
        split: option.splits)
  show ?thesis
    unfolding eq by (auto split: option.splits)
qed

theorem menu_write_command_writes_witness:
  "writes_of (fst (menu_write_command
      \<lparr>connect_raises = None, connected_after_connect = True,
       write_raises = (\<lambda>k u p a. Some ''not permitted''), connected_at_cleanup = True,
       disconnect_raises = None\<rparr>
      ''AA:BB:CC:11:22:33'' ''FFF0'' ''FFF3'' [91, 240, 1, 181])) =
     [Write (UUID_TEMPLATE ''FFF3'') [91, 240, 1, 181] False,
      Write (UUID_TEMPLATE ''FFF3'') [91, 240, 1, 181] True]"
  using menu_write_command_writes
    [of "\<lparr>connect_raises = None, connected_after_connect = True,
         write_raises = (\<lambda>k u p a. Some ''not permitted''), connected_at_cleanup = True,
         disconnect_raises = None\<rparr>" "''AA:BB:CC:11:22:33''" "''FFF0''" "''FFF3''" "[91, 240, 1, 181]"]
  by simp

subsection \<open>Cleanup after a write\<close>


lemma write_cascade_no_disconnect: "Disconnect \<notin> set (fst (write_cascade cl char_short payload))"
  by (simp add: write_cascade_def Let_def split: option.splits)

lemma write_body_no_disconnect:
  "Disconnect \<notin> set (fst (write_body cl address char_short payload))"
proof -
  obtain ws r where c: "write_cascade cl char_short payload = (ws, r)"
    by (cases "write_cascade cl char_short payload")
  then have "Disconnect \<notin> set ws"
    using write_cascade_no_disconnect [of cl char_short payload] by simp
  then show ?thesis
    using c by (cases r) (auto simp: write_body_def split: option.splits if_splits)
qed

lemma menu_write_body_no_disconnect:
  "Disconnect \<notin> set (fst (menu_write_body cl address char_short payload))"
  by (simp add: menu_write_body_def Let_def split: option.splits)

lemma write_cascade_same_answers:
  assumes "write_raises cl' = write_raises cl"
  shows "write_cascade cl' char_short payload = write_cascade cl char_short payload"
  unfolding write_cascade_def assms by (rule refl)

lemma write_body_same_answers:
  assumes "connect_raises cl' = connect_raises cl"
    "connected_after_connect cl' = connected_after_connect cl"
    "write_raises cl' = write_raises cl"
  shows "write_body cl' address char_short payload = write_body cl address char_short payload"
  unfolding write_body_def write_cascade_same_answers [OF assms(3)] assms(1,2) by (rule refl)

lemma menu_write_body_same_answers:
  assumes "connect_raises cl' = connect_raises cl"
    "connected_after_connect cl' = connected_after_connect cl"
    "write_raises cl' = write_raises cl"
  shows "menu_write_body cl' address char_short payload = menu_write_body cl address char_short payload"
  unfolding menu_write_body_def assms by (rule refl)

lemma write_body_ignores_cleanup:
  "write_body (cl\<lparr>connected_at_cleanup := k, disconnect_raises := d\<rparr>) address char_short payload =
   write_body cl address char_short payload"
  by (rule write_body_same_answers) simp_all

lemma menu_write_body_ignores_cleanup:
  "menu_write_body (cl\<lparr>connected_at_cleanup := k, disconnect_raises := d\<rparr>) address char_short payload =
   menu_write_body cl address char_short payload"
  by (rule menu_write_body_same_answers) simp_all

text \<open>
  C8 (as amended). On every exit path of \<^verbatim>\<open>write_command\<close>, in both files, the
  \<^verbatim>\<open>finally\<close> clause runs after the body; it calls disconnect exactly when the client
  still reports that it is connected, as the last call of the trace, and the result of
  the call is the one the body determined, whatever the disconnect does and whether it
  is made or not.
\<close>

theorem write_command_cleanup:
  "fst (write_command cl address service_short char_short payload) =
     fst (write_body cl address char_short payload) @
       (if connected_at_cleanup cl then [Disconnect] else []) \<and>
   (Disconnect \<in> set (fst (write_command cl address service_short char_short payload))) =
     connected_at_cleanup cl \<and>
   snd (write_command (cl\<lparr>connected_at_cleanup := k, disconnect_raises := d\<rparr>)
          address service_short char_short payload) =
     snd (write_command cl address service_short char_short payload) \<and>
   fst (menu_write_command cl address service_short char_short payload) =
     fst (menu_write_body cl address char_short payload) @
       (if connected_at_cleanup cl then [Disconnect] else []) \<and>
   (Disconnect \<in> set (fst (menu_write_command cl address service_short char_short payload))) =
     connected_at_cleanup cl \<and>
   snd (menu_write_command (cl\<lparr>connected_at_cleanup := k, disconnect_raises := d\<rparr>)
          address service_short char_short payload) =
     snd (menu_write_command cl address service_short char_short payload)"
proof -
  have a: "fst (write_command cl address service_short char_short payload) =
     fst (write_body cl address char_short payload) @
       (if connected_at_cleanup cl then [Disconnect] else [])"
    by (simp add: write_command_def cleanup_def split: prod.splits)
  have b: "snd (write_command (cl\<lparr>connected_at_cleanup := k, disconnect_raises := d\<rparr>)
          address service_short char_short payload) =
     snd (write_command cl address service_short char_short payload)"
    by (simp add: write_command_def write_body_ignores_cleanup split: prod.splits)
  have c: "fst (menu_write_command cl address service_short char_short payload) =
     fst (menu_write_body cl address char_short payload) @
       (if connected_at_cleanup cl then [Disconnect] else [])"
    by (simp add: menu_write_command_def split: prod.splits)
  have e: "snd (menu_write_command (cl\<lparr>connected_at_cleanup := k, disconnect_raises := d\<rparr>)
          address service_short char_short payload) =
     snd (menu_write_command cl address service_short char_short payload)"
    by (simp add: menu_write_command_def menu_write_body_ignores_cleanup split: prod.splits)
  show ?thesis
    using write_body_no_disconnect [of cl address char_short payload]
      menu_write_body_no_disconnect [of cl address char_short payload]
    by (simp only: a b c e) simp
qed

theorem write_command_cleanup_witness:
  "fst (write_command
      \<lparr>connect_raises = None, connected_after_connect = True,
       write_raises = (\<lambda>k u p a. None), connected_at_cleanup = True,
       disconnect_raises = Some ''link lost''\<rparr>
      ''AA:BB:CC:11:22:33'' ''FFF0'' ''FFF3'' [91, 240, 1, 181]) =
     [Connect ''AA:BB:CC:11:22:33'', Sleep 0.3,
      Write (UUID_TEMPLATE ''FFF3'') [91, 240, 1, 181] False, Sleep 0.2, Disconnect] \<and>
   snd (write_command
      \<lparr>connect_raises = None, connected_after_connect = True,
       write_raises = (\<lambda>k u p a. None), connected_at_cleanup = True,
       disconnect_raises = Some ''link lost''\<rparr>
      ''AA:BB:CC:11:22:33'' ''FFF0'' ''FFF3'' [91, 240, 1, 181]) = Inr ()"
  using write_command_cleanup
    [of "\<lparr>connect_raises = None, connected_after_connect = True,
         write_raises = (\<lambda>k u p a. None), connected_at_cleanup = True,
         disconnect_raises = Some ''link lost''\<rparr>"
        "''AA:BB:CC:11:22:33''" "''FFF0''" "''FFF3''" "[91, 240, 1, 181]" None True]
  by (simp add: write_command_def write_body_def write_cascade_def cleanup_def)

text \<open>
  The claim as written fails: when the connection attempt raises and the client is
  therefore not connected, \<^verbatim>\<open>write_command\<close> ends without any disconnect call.
\<close>

theorem write_command_no_disconnect_counterexample:
  "write_command
      \<lparr>connect_raises = Some ''Device not found'', connected_after_connect = False,
       write_raises = (\<lambda>k u p a. None), connected_at_cleanup = False,
       disconnect_raises = None\<rparr>
      ''BE:60:4D:00:58:37'' ''AFD0'' ''AFD1'' [91, 240, 1, 181] =
     ([Connect ''BE:60:4D:00:58:37''], Inl (AdapterError ''Device not found''))"
  by (simp add: write_command_def write_body_def cleanup_def)

text \<open>
  The colour path of \<^verbatim>\<open>send_command\<close> has no \<^verbatim>\<open>finally\<close> clause: there a
  failing disconnect after two good writes is reported as a failure of the command, and a
  failing write leaves the connection without a disconnect.
\<close>

lemma send_command_color_disconnect_failure:
  "send_command
      \<lparr>connect_raises = None, connected_after_connect = True,
       write_raises = (\<lambda>k u p a. None), connected_at_cleanup = True,
       disconnect_raises = Some ''link lost''\<rparr>
      (''BE:60:4D:00:58:37'', ''KS03~370058'', ''KS03~'') [90, 0, 1, 255, 0, 0, 0, 255, 0, 165] True =
     ([Connect ''BE:60:4D:00:58:37'', Sleep 0.3,
       Write (UUID_TEMPLATE ''AFD1'') [91, 240, 1, 181] False, Sleep 0.5,
       Write (UUID_TEMPLATE ''AFD1'') [90, 0, 1, 255, 0, 0, 0, 255, 0, 165] False, Sleep 0.2,
       Disconnect, Sleep 1], Inr (Failed ''link lost''))"
  by (simp add: send_command_def color_sequence_def lookup_mapping_def DEVICE_MAPPINGS_def
      build_on_off_cmd_def hex_val_def is_space_def)

lemma send_command_color_write_failure:
  "send_command
      \<lparr>connect_raises = None, connected_after_connect = True,
       write_raises = (\<lambda>k u p a. Some ''not permitted''), connected_at_cleanup = True,
       disconnect_raises = None\<rparr>
      (''BE:60:4D:00:58:37'', ''KS03~370058'', ''KS03~'') [90, 0, 1, 255, 0, 0, 0, 255, 0, 165] True =
     ([Connect ''BE:60:4D:00:58:37'', Sleep 0.3,
       Write (UUID_TEMPLATE ''AFD1'') [91, 240, 1, 181] False, Sleep 1],
      Inr (Failed ''not permitted''))"
  by (simp add: send_command_def color_sequence_def lookup_mapping_def DEVICE_MAPPINGS_def
      build_on_off_cmd_def hex_val_def is_space_def)

text \<open>
  With a short code outside the pair, two failing writes give a \<^verbatim>\<open>RuntimeError\<close>
  that names both reasons.
\<close>

lemma write_cascade_two_failures:
  assumes "alt_char_short char_short = None"
    "write_raises cl 0 (UUID_TEMPLATE char_short) payload False = Some e1"
    "write_raises cl 1 (UUID_TEMPLATE char_short) payload True = Some e2"
  shows "snd (write_cascade cl char_short payload) =
           Inl (RuntimeError (''Write failed: '' @ e1 @ '', '' @ e2))"
  using assms by (simp add: write_cascade_def Let_def)

end
